theory Spec2Isabelle
  imports Complex_Main
begin

section \<open>The track generator of eufs\_launcher (TrackGenerator.py)\<close>

text \<open>
  Python floats are modelled as the real numbers: every arithmetic operation is exact.
  A path is a list of points; the overlap checker works on points with integer
  coordinates (the caller rounds with \<open>int\<close>, which truncates toward zero).
\<close>

type_synonym point = "real \<times> real"
type_synonym ipoint = "int \<times> int"

subsection \<open>Overlap checker\<close>

text \<open>
  \<open>compactify_points\<close> walks the list with \<open>prev_point\<close>, which starts at the
  sentinel \<open>(-10000, -10000)\<close> and is set to \<open>points[a]\<close> after every index,
  removed or not. Index \<open>a\<close> is put on \<open>remove_list\<close> when \<open>points[a]\<close> equals
  \<open>prev_point\<close>; the listed indices are deleted afterwards, highest first, so the
  result is the list of the elements that were not listed. \<open>make_int\<close> is the
  identity on integer points.
\<close>

fun compactify_from :: "ipoint \<Rightarrow> ipoint list \<Rightarrow> ipoint list" where
  "compactify_from prev_point [] = []"
| "compactify_from prev_point (p # ps) =
     (if p = prev_point then compactify_from p ps else p # compactify_from p ps)"

definition compactify_points :: "ipoint list \<Rightarrow> ipoint list" where
  "compactify_points points = compactify_from (-10000, -10000) points"

text \<open>
  \<open>check_if_overlap\<close>: \<open>points[:-10]\<close> keeps the first \<open>len - 10\<close> elements (none
  when there are at most ten). The loop runs over \<open>range(1, len(points))\<close>, which is
  evaluated once, before the first append; each round reads \<open>points[index-1]\<close> and
  \<open>points[index]\<close> and may append one point to the end of the same list.
\<close>

fun diagonal_loop :: "nat list \<Rightarrow> ipoint list \<Rightarrow> ipoint list" where
  "diagonal_loop [] points = points"
| "diagonal_loop (index # rest) points =
     (let (sx, sy) = points ! (index - 1);
          (ex, ey) = points ! index;
          manhattan_distance = \<bar>ex - sx\<bar> + \<bar>ey - sy\<bar>
      in diagonal_loop rest
           (if manhattan_distance > 1
            then points @ [if ex > sx then (sx + 1, sy) else (sx - 1, sy)]
            else points))"

definition check_if_overlap :: "ipoint list \<Rightarrow> bool" where
  "check_if_overlap points0 =
     (let points = take (length points0 - 10) points0;
          points' = diagonal_loop [1..<length points] points
      in card (set points') \<noteq> length points')"















subsection \<open>Errors, presets and the active configuration\<close>

text \<open>
  Exceptions are values: \<open>GenerationFailedException\<close> is the class the module declares,
  the others are Python's own.
\<close>

datatype error =
    GenerationFailedException
  | NameError string
  | IndexError
  | ZeroDivisionError
  | ValueError
  | LinAlgError
  | RecursionError

definition get_presets :: "(string \<times> real list) list" where
  "get_presets =
     [(''Contest Rules'', [10, 80, 10, 25, 4.5, 10, 3, 1500, 0, 0]),
      (''Small Straights'', [5, 40, 10, 25, 4.5, 10, 3, 700, 1, 0]),
      (''Computer Friendly'', [10, 80, 5, 15, 4.5, 10, 3, 500, 1, 0]),
      (''Bezier'', [10, 80, 5, 15, 4.5, 10, 3, 500, 1, 1])]"

text \<open>The loop of \<open>get_preset\<close>: the first entry whose name matches is returned.\<close>

fun preset_loop :: "(string \<times> real list) list \<Rightarrow> string \<Rightarrow> real list option" where
  "preset_loop [] name = None"
| "preset_loop (a # all_presets) name =
     (if fst a = name then Some (snd a) else preset_loop all_presets name)"

text \<open>
  Modelled from the spec: \<open>LauncherUtilities\<close>, star-imported by the module, is not among
  the sources. Its exports are taken to be the vector and angle utilities that the
  module calls.
\<close>

definition launcher_utilities_names :: "string list" where
  "launcher_utilities_names =
     [''calculate_tangent_angle'', ''calculate_tangent_vector'', ''calculate_vector_angle'',
      ''calculate_vector_from_angle'', ''cap_angle'', ''magnitude'', ''normalize_vec'']"

text \<open>
  The names bound at the top level of the module, by its \<open>import\<close>, \<open>class\<close> and
  \<open>def\<close> statements. \<open>get_preset\<close> is defined in the body of the class
  \<open>TrackGenerator\<close>, so it is an attribute of the class and not one of these.
\<close>

definition module_globals :: "string list" where
  "module_globals =
     [''math'', ''Image'', ''ImageDraw'', ''randrange'', ''uniform'', ''rospy'', ''binom'', ''np'',
      ''GenerationFailedException'', ''TrackGenerator'',
      ''generate_bezier_track'', ''get_random_bezier'', ''get_parametric_bezier'',
      ''generate_autocross_trackdrive_track'', ''generate_path_from_point_to_point'',
      ''generate_hairpin_turn'', ''generate_constant_turn_until_facing_point'',
      ''get_parametric_circle'', ''generate_constant_turn'', ''generate_straight'',
      ''convert_points_to_all_positive'', ''compactify_points'', ''check_if_overlap'']
     @ launcher_utilities_names"

text \<open>
  \<open>get_preset\<close> returns the diagnostics it logged with \<open>rospy.logerr\<close> and its
  result. After the loop it evaluates the bare name \<open>get_preset\<close>: inside a static
  method Python looks a bare name up in the function's locals, the module's globals and
  the builtins, never in the class; a name found in none of them raises \<open>NameError\<close>.
  Were the name bound at module level to this function, the call would return the
  ``Contest Rules'' entry.
\<close>

definition get_preset :: "string \<Rightarrow> string list \<times> (error + real list)" where
  "get_preset name =
     (case preset_loop get_presets name of
        Some values \<Rightarrow> ([], Inr values)
      | None \<Rightarrow>
          ([''No such preset: '' @ name, ''Defaulting to Contest Rules''],
           if ''get_preset'' \<in> set module_globals
           then (case preset_loop get_presets ''Contest Rules'' of
                   Some values \<Rightarrow> Inr values
                 | None \<Rightarrow> Inl (NameError ''get_preset''))
           else Inl (NameError ''get_preset'')))"

text \<open>
  The class attributes that \<open>set_data\<close> assigns are the active configuration; the model
  passes it as a value. \<open>values[i]\<close> raises \<open>IndexError\<close> when the list is shorter.
\<close>

record config =
  MIN_STRAIGHT :: real
  MAX_STRAIGHT :: real
  MIN_CONSTANT_TURN :: real
  MAX_CONSTANT_TURN :: real
  MIN_HAIRPIN :: real
  MAX_HAIRPIN :: real
  MAX_HAIRPIN_NUM :: real
  MIN_HAIRPIN_NUM :: real
  MAX_TRACK_LENGTH :: real
  LAX_GENERATION :: bool
  TRACK_MODE :: string

definition get_mode_from_number :: "real \<Rightarrow> string" where
  "get_mode_from_number num =
     (if num = 0 then ''Circle&Line'' else if num = 1 then ''Bezier'' else ''Circle&Line'')"

definition set_data :: "real list \<Rightarrow> error + config" where
  "set_data values =
     (if length values < 10 then Inl IndexError
      else Inr \<lparr> MIN_STRAIGHT = values ! 0,
                 MAX_STRAIGHT = values ! 1,
                 MIN_CONSTANT_TURN = values ! 2,
                 MAX_CONSTANT_TURN = values ! 3,
                 MIN_HAIRPIN = values ! 4,
                 MAX_HAIRPIN = values ! 5,
                 MAX_HAIRPIN_NUM = values ! 6,
                 MIN_HAIRPIN_NUM = (if values ! 6 > 0 then 1 else 0),
                 MAX_TRACK_LENGTH = values ! 7,
                 LAX_GENERATION = (values ! 8 = 1),
                 TRACK_MODE = get_mode_from_number (values ! 9) \<rparr>)"

subsection \<open>Normalisation of a finished path\<close>

text \<open>\<open>int\<close> on a float truncates toward zero.\<close>

definition py_int :: "real \<Rightarrow> int" where
  "py_int r = (if 0 \<le> r then \<lfloor>r\<rfloor> else \<lceil>r\<rceil>)"

definition int_point :: "point \<Rightarrow> ipoint" where
  "int_point x = (py_int (fst x), py_int (snd x))"

definition real_point :: "ipoint \<Rightarrow> point" where
  "real_point p = (of_int (fst p), of_int (snd p))"

text \<open>The first loop of \<open>convert_points_to_all_positive\<close>; all four bounds start at 0.\<close>

fun bounds_loop :: "point list \<Rightarrow> real \<times> real \<times> real \<times> real \<Rightarrow> real \<times> real \<times> real \<times> real" where
  "bounds_loop [] b = b"
| "bounds_loop ((x, y) # rest) (max_neg_x, max_neg_y, max_x, max_y) =
     bounds_loop rest (min x max_neg_x, min y max_neg_y, max x max_x, max y max_y)"

definition convert_points_to_all_positive :: "point list \<Rightarrow> point list \<times> int \<times> int" where
  "convert_points_to_all_positive xys =
     (case bounds_loop xys (0, 0, 0, 0) of
        (max_neg_x, max_neg_y, max_x, max_y) \<Rightarrow>
          (let padding = 10;
               new_xys = map (\<lambda>(x, y). ((x - max_neg_x) + padding, (y - max_neg_y) + padding)) xys
           in (new_xys,
               py_int (max_x - max_neg_x) + 2 * padding,
               py_int (max_y - max_neg_y) + 2 * padding)))"

subsection \<open>Vector and angle utilities\<close>

text \<open>
  \<open>math.atan2(y, x)\<close> of the Python library: the angle of the vector \<open>(x, y)\<close> in
  \<open>(-\<pi>, \<pi>]\<close>, and 0 for the zero vector.
\<close>

definition atan2 :: "real \<Rightarrow> real \<Rightarrow> real" where
  "atan2 y x =
     (if 0 < x then arctan (y / x)
      else if x < 0 then (if 0 \<le> y then arctan (y / x) + pi else arctan (y / x) - pi)
      else if 0 < y then pi / 2
      else if y < 0 then - (pi / 2)
      else 0)"

text \<open>
  Modelled from the spec: \<open>magnitude\<close> of \<open>LauncherUtilities\<close>, which is not among the
  sources; the specification lists it as the vector magnitude.
\<close>

definition magnitude :: "point \<Rightarrow> real" where
  "magnitude vec = sqrt (fst vec * fst vec + snd vec * snd vec)"

text \<open>
  Modelled from the spec: \<open>normalize_vec\<close> of \<open>LauncherUtilities\<close>, the normalisation
  of a vector: each component divided by the magnitude. A Python float division by
  zero raises \<open>ZeroDivisionError\<close>.
\<close>

definition normalize_vec :: "point \<Rightarrow> error + point" where
  "normalize_vec vec =
     (let mag = magnitude vec
      in if mag = 0 then Inl ZeroDivisionError else Inr (fst vec / mag, snd vec / mag))"

text \<open>
  Modelled from the spec: \<open>calculate_tangent_angle\<close> of \<open>LauncherUtilities\<close>, the
  tangent-angle estimation from a point sequence: the angle of the step from the
  second-last to the last point. Reading \<open>xys[-2]\<close> of a shorter list raises
  \<open>IndexError\<close>.
\<close>

definition calculate_tangent_angle :: "point list \<Rightarrow> error + real" where
  "calculate_tangent_angle xys =
     (if length xys < 2 then Inl IndexError
      else (let s = xys ! (length xys - 2);
                e = xys ! (length xys - 1)
            in Inr (atan2 (snd e - snd s) (fst e - fst s))))"

text \<open>
  Modelled from the spec: \<open>calculate_tangent_vector\<close> of \<open>LauncherUtilities\<close>, the
  exit tangent computed from the last two sampled points: the unit vector at the
  tangent angle.
\<close>

definition calculate_tangent_vector :: "point list \<Rightarrow> error + point" where
  "calculate_tangent_vector xys =
     (case calculate_tangent_angle xys of
        Inl e \<Rightarrow> Inl e
      | Inr angle \<Rightarrow> Inr (cos angle, sin angle))"

text \<open>
  Modelled from the spec: \<open>calculate_vector_angle\<close> of \<open>LauncherUtilities\<close>, the angle
  whose tangent \<open>generate_straight\<close> takes as the slope of the line: the angle of the
  vector. The theorems below use it on vectors that point into the first quadrant or
  along the positive x axis only, where the angle is the same whether the utility
  reports angles in \<open>(-\<pi>, \<pi>]\<close> or in \<open>[0, 2\<pi>)\<close>.
\<close>

definition calculate_vector_angle :: "point \<Rightarrow> real" where
  "calculate_vector_angle vec = atan2 (snd vec) (fst vec)"

text \<open>
  Modelled from the spec: \<open>calculate_vector_from_angle\<close> of \<open>LauncherUtilities\<close>, the
  unit vector at an angle.
\<close>

definition calculate_vector_from_angle :: "real \<Rightarrow> point" where
  "calculate_vector_from_angle angle = (cos angle, sin angle)"

subsection \<open>Curve primitives\<close>

text \<open>
  A segment is the tuple the primitives return: the points, the exit tangent, the exit
  normal and the length added. Entries of \<open>params\<close> that a caller leaves out are drawn
  at random by the primitive; the model takes every entry as an argument.
\<close>

type_synonym segment = "point list \<times> point \<times> point \<times> real"

text \<open>
  \<open>generate_straight\<close>. \<open>range(0, n)\<close> is empty for \<open>n \<le> 0\<close>. At an angle whose
  cosine is 0 the real tangent is undefined (\<open>math.tan\<close> returns a large float there);
  nothing below is stated for such an angle.
\<close>

definition generate_straight :: "point \<Rightarrow> point \<Rightarrow> point \<Rightarrow> real \<Rightarrow> segment" where
  "generate_straight start_point tangent_in normal_in len =
     (let angle = calculate_vector_angle tangent_in;
          startx = fst start_point;
          starty = snd start_point;
          slope = tan angle;
          tmax = len / sqrt (1 + slope * slope);
          tmax = (if angle * slope < 0 then tmax * (- 1) else tmax);
          scale_factor = 10;
          points =
            (if 0 \<le> tmax
             then map (\<lambda>t. (real t / scale_factor + startx, slope * real t / scale_factor + starty))
                    [0..<nat (py_int (scale_factor * of_int \<lceil>tmax\<rceil>))]
             else map (\<lambda>t. (- real t / scale_factor + startx,
                             - slope * real t / scale_factor + starty))
                    [0..<nat (py_int (scale_factor * of_int \<lceil>- tmax\<rceil>))])
      in (points, tangent_in, normal_in, len))"

definition x_span :: "point list \<Rightarrow> real" where
  "x_span pts = Max (fst ` set pts) - Min (fst ` set pts)"

definition get_parametric_circle :: "point \<Rightarrow> point \<Rightarrow> real \<Rightarrow> real \<Rightarrow> point" where
  "get_parametric_circle start_point center_point delta_angle t =
     (let a = t * delta_angle;
          cos_a = cos a;
          sin_a = sin a;
          del_x = fst start_point - fst center_point;
          del_y = snd start_point - snd center_point
      in (cos_a * del_x - sin_a * del_y + fst center_point,
          sin_a * del_x + cos_a * del_y + snd center_point))"

text \<open>
  \<open>generate_constant_turn\<close>. \<open>fidelity\<close> is the ceiling of the length. With a
  negative fidelity the range is empty and \<open>points[-1]\<close> raises \<open>IndexError\<close>; with
  fidelity 0 the only sample divides 0 by 0.
\<close>

definition generate_constant_turn ::
  "point \<Rightarrow> point \<Rightarrow> point \<Rightarrow> bool \<Rightarrow> real \<Rightarrow> real \<Rightarrow> error + segment" where
  "generate_constant_turn start_point tangent_in normal_in turn_against_normal
       circle_percent radius =
     (let normal_vec = (if turn_against_normal then (- fst normal_in, - snd normal_in)
                        else normal_in);
          center = (fst start_point + fst normal_vec * radius,
                    snd start_point + snd normal_vec * radius);
          turn_angle = circle_percent * pi * 2;
          cross_product = fst tangent_in * snd normal_vec - snd tangent_in * fst normal_vec;
          flipper = (if cross_product < 0 then - 1 else 1);
          circle_function = get_parametric_circle start_point center (flipper * turn_angle);
          len = turn_angle * radius;
          fidelity = \<lceil>len\<rceil>
      in if fidelity + 1 \<le> 0 then Inl IndexError
         else if fidelity = 0 then Inl ZeroDivisionError
         else (let points = map (\<lambda>t. circle_function (real t / of_int fidelity))
                              [0..<nat (fidelity + 1)]
               in case normalize_vec (fst (last points) - fst center,
                                      snd (last points) - snd center) of
                    Inl e \<Rightarrow> Inl e
                  | Inr normal \<Rightarrow>
                      (case calculate_tangent_vector points of
                         Inl e \<Rightarrow> Inl e
                       | Inr tangent_out \<Rightarrow> Inr (points, tangent_out, normal, len))))"

text \<open>
  The points expected of a quarter turn of radius 10 that starts at the origin along the
  x axis and turns towards the normal \<open>(0, 1)\<close>: seventeen samples of the circle about
  \<open>(0, 10)\<close>, a 64th of a full turn apart.
\<close>

definition quarter_turn_points :: "point list" where
  "quarter_turn_points =
     map (\<lambda>t. (10 * sin (real t * pi / 32), 10 - 10 * cos (real t * pi / 32))) [0..<17]"

text \<open>
  The arc-to-goal solver, up to the sweep angle \<open>theta\<close>. \<open>np.linalg.inv\<close> raises
  \<open>LinAlgError\<close> on a singular matrix; \<open>math.acos\<close> raises \<open>ValueError\<close> outside
  \<open>[-1, 1]\<close>; \<open>r/x\<close> raises \<open>ZeroDivisionError\<close> when \<open>x\<close> is 0. \<open>np.cross\<close> of two
  plane vectors is a number and its norm the absolute value.
\<close>

definition facing_point_theta ::
  "point \<Rightarrow> point \<Rightarrow> point \<Rightarrow> point \<Rightarrow> bool \<Rightarrow> real \<Rightarrow> error + real" where
  "facing_point_theta start_point goal_point tangent_in normal_in turn_against_normal radius =
     (let s = start_point;
          r = radius;
          normal = normal_in
      in case normalize_vec (if \<not> turn_against_normal then normal
                             else (- fst normal, - snd normal)) of
           Inl e \<Rightarrow> Inl e
         | Inr n \<Rightarrow>
            (let g = goal_point;
                 rn = (r * fst n, r * snd n);
                 c = (fst s + fst rn, snd s + snd rn);
                 cg = (fst c - fst g, snd c - snd g);
                 gc = (- fst cg, - snd cg);
                 sc = (fst s - fst c, snd s - snd c);
                 t = tangent_in;
                 x = magnitude gc
             in if x = 0 then Inl ZeroDivisionError
                else (let x = (if \<bar>r / x\<bar> > 1 then r else x);
                          det = fst t * snd n - fst n * snd t
                      in if det = 0 then Inl LinAlgError
                         else (let g_prime = ((snd n * fst gc - fst n * snd gc) / det,
                                              (- snd t * fst gc + fst t * snd gc) / det);
                                   quadrant =
                                     (if (fst g_prime \<ge> 0 \<and> - r \<le> snd g_prime \<and> snd g_prime \<le> 0)
                                         \<or> (fst g_prime \<ge> r \<and> - r \<le> snd g_prime)
                                      then 1
                                      else if (snd g_prime \<ge> 0 \<and> 0 \<le> fst g_prime \<and> fst g_prime \<le> r)
                                         \<or> (snd g_prime \<ge> r \<and> fst g_prime \<le> r)
                                      then 2
                                      else if (fst g_prime \<le> 0 \<and> 0 \<le> snd g_prime \<and> snd g_prime \<le> r)
                                         \<or> (fst g_prime \<le> - r \<and> snd g_prime \<le> r)
                                      then 3
                                      else (4 :: int));
                                   quadrant_angle = of_int (quadrant - 1) * pi / 2;
                                   new_s = (cos quadrant_angle * fst sc - sin quadrant_angle * snd sc,
                                            sin quadrant_angle * fst sc + cos quadrant_angle * snd sc);
                                   cross = fst gc * snd new_s - snd gc * fst new_s;
                                   dot = fst gc * fst new_s + snd gc * snd new_s
                               in if r / x < - 1 \<or> 1 < r / x then Inl ValueError
                                  else (let inner_angle = arccos (r / x);
                                            outer_angle =
                                              (if quadrant = 1 \<or> quadrant = 3 \<or> \<not> turn_against_normal
                                               then atan2 \<bar>cross\<bar> dot
                                               else atan2 \<bar>cross\<bar> (- dot))
                                        in Inr (outer_angle - inner_angle + quadrant_angle))))))"

text \<open>
  \<open>generate_constant_turn_until_facing_point\<close>: one retry with the turn direction
  flipped when the sweep is almost a full turn. The threshold \<open>2*(31/32)*math.pi\<close> is
  read with true division, as the specification reads it.
\<close>

function generate_constant_turn_until_facing_point ::
  "point \<Rightarrow> point \<Rightarrow> point \<Rightarrow> point \<Rightarrow> bool \<Rightarrow> real \<Rightarrow> bool \<Rightarrow> error + segment" where
  "generate_constant_turn_until_facing_point start_point goal_point tangent_in normal_in
       turn_against_normal radius recursed =
     (case facing_point_theta start_point goal_point tangent_in normal_in
             turn_against_normal radius of
        Inl e \<Rightarrow> Inl e
      | Inr theta \<Rightarrow>
          if theta > 2 * (31 / 32) * pi \<and> \<not> recursed
          then generate_constant_turn_until_facing_point start_point goal_point tangent_in
                 normal_in (\<not> turn_against_normal) radius True
          else generate_constant_turn start_point tangent_in normal_in turn_against_normal
                 (theta / (pi * 2)) radius)"
  by pat_completeness auto
termination
  by (relation "measure (\<lambda>(s, g, t, n, tan, r, recursed). if recursed then 0 else 1)") auto

subsection \<open>Path composers and the generator facade\<close>

text \<open>
  The composers draw random numbers and build the path from curve primitives. One
  pass through the body of \<open>generate_autocross_trackdrive_track\<close> is described by what
  its draws and its calls produced: the start angle drawn for the initial straight; for
  each of the three checkpoint legs the outcome of
  \<open>generate_path_from_point_to_point\<close>, the exception it raised or the points it
  generated; the outcome of the closing sequence (from the approach to the start up to
  the final straight), the exception raised or the points added; and the values of
  \<open>straight_length\<close> and \<open>cur_track_length\<close> when the final checks are reached.
  One call of a composer from \<open>generate\<close> is described by a \<open>run\<close>: the passes it
  goes through (every restart is a recursive call and starts a new pass), the number of
  nested restarts that the interpreter's recursion limit leaves room for, and, for the
  Bezier composer, the points it samples (101 on each of its four curves).
\<close>

record attempt =
  start_angle :: real
  legs :: "(error + point list) list"
  closing :: "error + point list"
  straight_length :: real
  cur_track_length :: real

record run =
  attempts :: "attempt list"
  recursion_room :: nat
  bezier_xys :: "point list"

type_synonym candidate = "point list \<times> int \<times> int"

text \<open>
  The checkpoint loop: an exception of a leg goes to the caller; after each leg the
  accumulated path is rounded, compacted and checked; \<open>max_fails\<close> is 1, so the first
  overlap returns \<open>(test, 0, 0)\<close>.
\<close>

fun checkpoint_loop ::
  "(error + point list) list \<Rightarrow> point list \<Rightarrow> error + (ipoint list + point list)" where
  "checkpoint_loop [] xys = Inr (Inr xys)"
| "checkpoint_loop (leg # rest) xys =
     (case leg of
        Inl e \<Rightarrow> Inl e
      | Inr generated \<Rightarrow>
          (let xys = xys @ generated;
               test = compactify_points (map int_point xys)
           in if check_if_overlap test then Inr (Inl test) else checkpoint_loop rest xys))"

text \<open>
  \<open>generate_autocross_trackdrive_track\<close>. The initial straight has the length
  \<open>MIN_STRAIGHT\<close>; \<open>generated[-1]\<close> raises \<open>IndexError\<close> when it has no points. A
  restart is a recursive call: it raises \<open>RecursionError\<close> when the recursion limit
  leaves no room for it. A call that has used up the passes of its run has not
  returned (\<open>None\<close>).
\<close>

fun generate_autocross_trackdrive_track ::
  "config \<Rightarrow> point \<Rightarrow> nat \<Rightarrow> attempt list \<Rightarrow> (error + candidate) option" where
  "generate_autocross_trackdrive_track cfg start_point room [] = None"
| "generate_autocross_trackdrive_track cfg start_point room (a # restarts) =
     (let start_normal = start_angle a + pi / 4;
          generated = fst (generate_straight start_point
                             (calculate_vector_from_angle (start_angle a))
                             (calculate_vector_from_angle start_normal)
                             (MIN_STRAIGHT cfg));
          restart = (case room of
                       0 \<Rightarrow> Some (Inl RecursionError)
                     | Suc room' \<Rightarrow>
                         generate_autocross_trackdrive_track cfg start_point room' restarts)
      in if generated = [] then Some (Inl IndexError)
         else (case checkpoint_loop (legs a) generated of
                 Inl e \<Rightarrow> Some (Inl e)
               | Inr (Inl test) \<Rightarrow> Some (Inr (map real_point test, 0, 0))
               | Inr (Inr xys) \<Rightarrow>
                   (case closing a of
                      Inl e \<Rightarrow> Some (Inl e)
                    | Inr closing_points \<Rightarrow>
                        (let xys = xys @ closing_points in
                         if \<not> LAX_GENERATION cfg then
                           if straight_length a + MIN_STRAIGHT cfg > MAX_STRAIGHT cfg
                           then restart
                           else if cur_track_length a > 1500
                           then restart
                           else Some (Inr (convert_points_to_all_positive xys))
                         else Some (Inr (convert_points_to_all_positive xys))))))"

text \<open>
  \<open>generate_bezier_track\<close> samples four Bezier curves, each a sum of products of the
  control points, and normalises the sampled points; it has no call that restarts it and
  no indexing that can fail.
\<close>

definition generate_bezier_track :: "config \<Rightarrow> point list \<Rightarrow> (error + candidate) option" where
  "generate_bezier_track cfg xys = Some (Inr (convert_points_to_all_positive xys))"

text \<open>The composer that \<open>generate\<close> selects, called on the start point \<open>(0, 0)\<close>.\<close>

definition generate_function :: "config \<Rightarrow> run \<Rightarrow> (error + candidate) option" where
  "generate_function cfg r =
     (if TRACK_MODE cfg = ''Circle&Line''
      then generate_autocross_trackdrive_track cfg (0, 0) (recursion_room r) (attempts r)
      else generate_bezier_track cfg (bezier_xys r))"

text \<open>
  The retry loop of \<open>generate\<close>. Every round calls the composer once; an exception of
  the composer leaves the loop and reaches the caller. The list of runs is the fuel, and
  \<open>None\<close> says that the loop has not ended within it.
\<close>

fun generate_loop :: "config \<Rightarrow> run list \<Rightarrow> nat \<Rightarrow> (error + candidate) option" where
  "generate_loop cfg [] failure_count = None"
| "generate_loop cfg (r # rest) failure_count =
     (case generate_function cfg r of
        None \<Rightarrow> None
      | Some (Inl e) \<Rightarrow> Some (Inl e)
      | Some (Inr (xys, twidth, theight)) \<Rightarrow>
          (let xys2 = compactify_points (map int_point xys);
               overlapped = check_if_overlap xys2;
               failure_count = (if overlapped then failure_count + 1 else failure_count)
           in if failure_count > 10000 then Some (Inl GenerationFailedException)
              else if overlapped \<or> xys = [] then generate_loop cfg rest failure_count
              else Some (Inr (xys, twidth, theight))))"

text \<open>
  The two reflections at the end of \<open>generate\<close>: \<open>flip_x\<close> and \<open>flip_y\<close> are the
  outcomes of the two draws \<open>uniform(0,1) < 0.5\<close>.
\<close>

definition flipped :: "bool \<Rightarrow> bool \<Rightarrow> candidate \<Rightarrow> candidate" where
  "flipped flip_x flip_y c =
     (case c of (xys, twidth, theight) \<Rightarrow>
        (let xys = (if flip_x then map (\<lambda>(x, y). (- x + of_int twidth, y)) xys else xys);
             xys = (if flip_y then map (\<lambda>(x, y). (x, - y + of_int theight)) xys else xys)
         in (xys, twidth, theight)))"

definition generate :: "real list \<Rightarrow> run list \<Rightarrow> bool \<Rightarrow> bool \<Rightarrow> (error + candidate) option" where
  "generate values runs flip_x flip_y =
     (case set_data values of
        Inl e \<Rightarrow> Some (Inl e)
      | Inr cfg \<Rightarrow>
          (case generate_loop cfg runs 0 of
             None \<Rightarrow> None
           | Some (Inl e) \<Rightarrow> Some (Inl e)
           | Some (Inr c) \<Rightarrow> Some (Inr (flipped flip_x flip_y c))))"

text \<open>
  Vocabulary for the retry loop. A candidate is overlap-rejected when the check of
  \<open>generate\<close> reports an overlap; these are the attempts that \<open>failure_count\<close> counts.
  The loop goes round again after a composer call that returned a candidate which is
  rejected or empty. The retried attempts are the composer outcomes before the first
  one that is not retried, and that one, if the runs hold it, is the first exit: a
  candidate, an exception of the composer, or a composer call that has not returned.
\<close>

definition overlap_rejected :: "candidate \<Rightarrow> bool" where
  "overlap_rejected c = check_if_overlap (compactify_points (map int_point (fst c)))"

definition retried :: "(error + candidate) option \<Rightarrow> bool" where
  "retried co =
     (case co of Some (Inr c) \<Rightarrow> overlap_rejected c \<or> fst c = [] | _ \<Rightarrow> False)"

definition counted :: "(error + candidate) option \<Rightarrow> bool" where
  "counted co = (case co of Some (Inr c) \<Rightarrow> overlap_rejected c | _ \<Rightarrow> False)"

definition retried_attempts :: "config \<Rightarrow> run list \<Rightarrow> (error + candidate) option list" where
  "retried_attempts cfg runs = takeWhile retried (map (generate_function cfg) runs)"

definition failed_attempts :: "config \<Rightarrow> run list \<Rightarrow> nat" where
  "failed_attempts cfg runs = length (filter counted (retried_attempts cfg runs))"

definition first_exit :: "config \<Rightarrow> run list \<Rightarrow> (error + candidate) option option" where
  "first_exit cfg runs = List.find (\<lambda>co. \<not> retried co) (map (generate_function cfg) runs)"

section \<open>Facts\<close>

subsection \<open>Facts about the overlap checker\<close>

lemma compactify_from_idem:
  "compactify_from q (compactify_from q ps) = compactify_from q ps"
  by (induction ps arbitrary: q) simp_all

lemma compactify_points_idem:
  "compactify_points (compactify_points ps) = compactify_points ps"
  by (simp add: compactify_points_def compactify_from_idem)














subsection \<open>Facts about the composers and the normalisation\<close>

lemma py_int_of_int: "py_int (of_int i) = i"
  by (simp add: py_int_def)

lemma int_point_real_point: "int_point (real_point p) = p"
  by (simp add: int_point_def real_point_def py_int_of_int)

lemma checkpoint_loop_Inl:
  "checkpoint_loop ls xys = Inr (Inl test) \<Longrightarrow>
   check_if_overlap test \<and> compactify_points test = test"
proof (induction ls arbitrary: xys)
  case Nil
  then show ?case by simp
next
  case (Cons leg ls)
  show ?case
  proof (cases leg)
    case (Inl e)
    with Cons.prems show ?thesis by simp
  next
    case (Inr g)
    show ?thesis
    proof (cases "check_if_overlap (compactify_points (map int_point (xys @ g)))")
      case True
      with Cons.prems Inr have "test = compactify_points (map int_point (xys @ g))"
        by (simp add: Let_def)
      with True show ?thesis by (simp add: compactify_points_idem)
    next
      case False
      with Cons.prems Inr have "checkpoint_loop ls (xys @ g) = Inr (Inl test)"
        by (simp add: Let_def)
      then show ?thesis by (rule Cons.IH)
    qed
  qed
qed

lemma autocross_result:
  "generate_autocross_trackdrive_track cfg start_point room as = Some (Inr c) \<Longrightarrow>
   (\<exists>xys. c = convert_points_to_all_positive xys) \<or>
   (\<exists>test. c = (map real_point test, 0, 0) \<and> check_if_overlap test \<and>
           compactify_points test = test)"
proof (induction as arbitrary: room)
  case Nil
  then show ?case by simp
next
  case (Cons a as)
  let ?restart = "case room of
                    0 \<Rightarrow> Some (Inl RecursionError)
                  | Suc room' \<Rightarrow> generate_autocross_trackdrive_track cfg start_point room' as"
  have restart: "?restart = Some (Inr c) \<Longrightarrow> ?case"
    using Cons.IH by (cases room) simp_all
  show ?case
  proof (cases "checkpoint_loop (legs a)
                  (fst (generate_straight start_point
                          (calculate_vector_from_angle (start_angle a))
                          (calculate_vector_from_angle (start_angle a + pi / 4))
                          (MIN_STRAIGHT cfg)))")
    case (Inl e)
    with Cons.prems show ?thesis by (simp add: Let_def split: if_splits)
  next
    case (Inr res)
    show ?thesis
    proof (cases res)
      case (Inl test)
      with Cons.prems Inr have "c = (map real_point test, 0, 0)"
        by (simp add: Let_def split: if_splits)
      with checkpoint_loop_Inl[OF Inr[unfolded Inl]] show ?thesis by blast
    next
      case inner: (Inr xys)
      show ?thesis
      proof (cases "closing a")
        case (Inl e)
        with Cons.prems Inr inner show ?thesis by (simp add: Let_def split: if_splits)
      next
        case cl: (Inr closing_points)
        from Cons.prems Inr inner cl
        have "?restart = Some (Inr c)
              \<or> c = convert_points_to_all_positive (xys @ closing_points)"
          by (simp add: Let_def split: if_splits)
        with restart show ?thesis by blast
      qed
    qed
  qed
qed

lemma early_abort_rejected:
  "check_if_overlap test \<Longrightarrow> compactify_points test = test \<Longrightarrow>
   overlap_rejected (map real_point test, w, h)"
  by (simp add: overlap_rejected_def comp_def int_point_real_point)

lemma generate_function_result:
  "generate_function cfg r = Some (Inr c) \<Longrightarrow> \<not> overlap_rejected c \<Longrightarrow>
   \<exists>xys. c = convert_points_to_all_positive xys"
  unfolding generate_function_def generate_bezier_track_def
  using autocross_result[of cfg "(0, 0)" "recursion_room r" "attempts r" c] early_abort_rejected
  by (auto split: if_splits)

lemma bounds_loop_props:
  "bounds_loop xys (a, b, c, d) = (a', b', c', d') \<Longrightarrow>
   a' \<le> a \<and> b' \<le> b \<and> c \<le> c' \<and> d \<le> d' \<and>
   (\<forall>p \<in> set xys. a' \<le> fst p \<and> fst p \<le> c' \<and> b' \<le> snd p \<and> snd p \<le> d')"
proof (induction xys arbitrary: a b c d)
  case Nil
  then show ?case by simp
next
  case (Cons p xys)
  obtain x y where p: "p = (x, y)" by (cases p)
  from Cons.prems have
    "bounds_loop xys (min x a, min y b, max x c, max y d) = (a', b', c', d')"
    by (simp add: p)
  from Cons.IH[OF this] show ?case by (auto simp add: p)
qed

lemma py_int_nonneg: "0 \<le> r \<Longrightarrow> r < of_int (py_int r) + 1 \<and> of_int (py_int r) \<le> r"
  by (simp add: py_int_def)

lemma convert_margin:
  assumes "convert_points_to_all_positive xys = (pts, w, h)"
  shows "\<forall>p \<in> set pts. 10 \<le> fst p \<and> fst p \<le> of_int w - 9 \<and>
                        10 \<le> snd p \<and> snd p \<le> of_int h - 9"
proof -
  obtain a b c d where bl: "bounds_loop xys (0, 0, 0, 0) = (a, b, c, d)"
    by (metis prod_cases4)
  from bounds_loop_props[OF bl] have
    le: "a \<le> 0" "b \<le> 0" "0 \<le> c" "0 \<le> d"
    and all: "\<forall>p \<in> set xys. a \<le> fst p \<and> fst p \<le> c \<and> b \<le> snd p \<and> snd p \<le> d"
    by auto
  from assms bl have
    pts: "pts = map (\<lambda>(x, y). (x - a + 10, y - b + 10)) xys"
    and w: "w = py_int (c - a) + 20" and h: "h = py_int (d - b) + 20"
    by (simp_all add: convert_points_to_all_positive_def Let_def)
  from le have "0 \<le> c - a" "0 \<le> d - b" by simp_all
  then have wb: "c - a < of_int (py_int (c - a)) + 1"
    and hb: "d - b < of_int (py_int (d - b)) + 1"
    using py_int_nonneg by blast+
  show ?thesis
  proof
    fix p assume "p \<in> set pts"
    then obtain q where q: "q \<in> set xys" and pq: "p = (fst q - a + 10, snd q - b + 10)"
      by (auto simp add: pts)
    from all q have "a \<le> fst q" "fst q \<le> c" "b \<le> snd q" "snd q \<le> d" by auto
    with wb hb
    show "10 \<le> fst p \<and> fst p \<le> of_int w - 9 \<and> 10 \<le> snd p \<and> snd p \<le> of_int h - 9"
      by (simp add: pq w h)
  qed
qed

lemma flipped_margin:
  assumes "\<forall>p \<in> set pts. 10 \<le> fst p \<and> fst p \<le> of_int w - 9 \<and>
                          10 \<le> snd p \<and> snd p \<le> of_int h - 9"
    and "flipped flip_x flip_y (pts, w, h) = (pts', w', h')"
  shows "w' = w \<and> h' = h \<and>
         (\<forall>p \<in> set pts'. 9 \<le> fst p \<and> fst p \<le> of_int w - 9 \<and>
                           9 \<le> snd p \<and> snd p \<le> of_int h - 9)"
  using assms
  by (cases flip_x; cases flip_y) (auto simp add: flipped_def Let_def, (fastforce)+)

subsection \<open>Facts about the retry loop\<close>

lemma generate_loop_char:
  "fc \<le> 10000 \<Longrightarrow>
   generate_loop cfg runs fc =
     (let cands = map (generate_function cfg) runs;
          pre = takeWhile retried cands
      in if 10000 < fc + length (filter counted pre) then Some (Inl GenerationFailedException)
         else (case drop (length pre) cands of [] \<Rightarrow> None | co # _ \<Rightarrow> co))"
proof (induction runs arbitrary: fc)
  case Nil
  then show ?case by simp
next
  case (Cons r runs)
  show ?case
  proof (cases "generate_function cfg r")
    case None
    with Cons.prems show ?thesis by (simp add: retried_def)
  next
    case (Some res)
    show ?thesis
    proof (cases res)
      case (Inl e)
      with Some Cons.prems show ?thesis by (simp add: retried_def)
    next
      case (Inr c)
      obtain xys w h where c: "c = (xys, w, h)" by (cases c)
      show ?thesis
      proof (cases "overlap_rejected c")
        case True
        then have ov: "check_if_overlap (compactify_points (map int_point xys))"
          by (simp add: overlap_rejected_def c)
        show ?thesis
        proof (cases "fc = 10000")
          case True
          with Some Inr c ov \<open>overlap_rejected c\<close> show ?thesis
            by (simp add: retried_def counted_def Let_def)
        next
          case False
          with Cons.prems have "Suc fc \<le> 10000" by simp
          from Cons.IH[OF this] Some Inr c ov \<open>overlap_rejected c\<close> \<open>Suc fc \<le> 10000\<close>
          show ?thesis
            by (simp add: retried_def counted_def Let_def)
        qed
      next
        case False
        then have ov: "\<not> check_if_overlap (compactify_points (map int_point xys))"
          by (simp add: overlap_rejected_def c)
        show ?thesis
        proof (cases "xys = []")
          case True
          with Cons.IH[OF Cons.prems] Some Inr c ov False Cons.prems show ?thesis
            by (simp add: retried_def counted_def Let_def)
        next
          case False
          with Some Inr c ov \<open>\<not> overlap_rejected c\<close> Cons.prems show ?thesis
            by (simp add: retried_def counted_def Let_def)
        qed
      qed
    qed
  qed
qed

lemma drop_takeWhile_find:
  "(case drop (length (takeWhile P xs)) xs of [] \<Rightarrow> None | x # _ \<Rightarrow> Some x)
   = List.find (\<lambda>x. \<not> P x) xs"
  by (induction xs) simp_all

lemma generate_loop_exit:
  "generate_loop cfg runs 0 =
     (if 10000 < failed_attempts cfg runs then Some (Inl GenerationFailedException)
      else (case first_exit cfg runs of None \<Rightarrow> None | Some co \<Rightarrow> co))"
proof -
  let ?cands = "map (generate_function cfg) runs"
  have "first_exit cfg runs
        = (case drop (length (takeWhile retried ?cands)) ?cands of
             [] \<Rightarrow> None | x # _ \<Rightarrow> Some x)"
    unfolding first_exit_def by (rule drop_takeWhile_find[symmetric])
  then show ?thesis
    by (simp add: generate_loop_char failed_attempts_def retried_attempts_def Let_def
        split: list.splits)
qed

lemma find_map_Some:
  "List.find Q (map f xs) = Some y \<Longrightarrow> Q y \<and> (\<exists>x \<in> set xs. f x = y)"
  by (induction xs) (auto split: if_splits)

lemma first_exit_accepted:
  "first_exit cfg runs = Some (Some (Inr c)) \<Longrightarrow>
   \<not> overlap_rejected c \<and> fst c \<noteq> [] \<and>
   (\<exists>r \<in> set runs. generate_function cfg r = Some (Inr c))"
  unfolding first_exit_def
  by (drule find_map_Some) (simp add: retried_def)


subsection \<open>Sample runs of the Bezier composer\<close>

lemma set_data_bezier:
  "set_data [10, 80, 5, 15, 4.5, 10, 3, 500, 1, 1] =
     Inr \<lparr> MIN_STRAIGHT = 10, MAX_STRAIGHT = 80, MIN_CONSTANT_TURN = 5,
           MAX_CONSTANT_TURN = 15, MIN_HAIRPIN = 4.5, MAX_HAIRPIN = 10,
           MAX_HAIRPIN_NUM = 3, MIN_HAIRPIN_NUM = 1, MAX_TRACK_LENGTH = 500,
           LAX_GENERATION = True, TRACK_MODE = ''Bezier'' \<rparr>"
  by (simp add: set_data_def get_mode_from_number_def)

lemma bezier_short_candidate:
  "TRACK_MODE cfg = ''Bezier'' \<Longrightarrow>
   generate_function cfg \<lparr> attempts = [], recursion_room = 0, bezier_xys = [(0, 0), (1, 2)] \<rparr>
     = Some (Inr ([(10, 10), (11, 12)], 21, 22))"
  by (simp add: generate_function_def generate_bezier_track_def
      convert_points_to_all_positive_def py_int_def)

lemma bezier_short_accepted:
  "\<not> retried (Some (Inr ([(10, 10), (11, 12)], 21, 22)))"
  by (simp add: retried_def overlap_rejected_def check_if_overlap_def int_point_def
      py_int_def compactify_points_def)





subsection \<open>Facts about the straight\<close>

lemma generate_straight_snd:
  "snd (generate_straight start_point tangent_in normal_in len) = (tangent_in, normal_in, len)"
  by (simp add: generate_straight_def Let_def)


lemma calculate_vector_angle_first_quadrant:
  "0 < a \<Longrightarrow> calculate_vector_angle (a, b) = arctan (b / a)"
  by (simp add: calculate_vector_angle_def atan2_def)

lemma generate_straight_along_x:
  "fst (generate_straight (0, 0) (1, 0) (0, 1) 20) = map (\<lambda>t. (real t / 10, 0)) [0..<200]"
  by (simp add: generate_straight_def calculate_vector_angle_first_quadrant Let_def py_int_def)

lemma x_span_samples:
  "0 < n \<Longrightarrow> x_span (map (\<lambda>t. (real t / 10, y)) [0..<n]) = real (n - 1) / 10"
proof -
  assume n: "0 < n"
  let ?S = "fst ` set (map (\<lambda>t. (real t / 10, y)) [0..<n])"
  have S: "?S = (\<lambda>t. real t / 10) ` {0..<n}" by (auto simp add: image_iff)
  have "Max ?S = real (n - 1) / 10"
  proof (rule Max_eqI)
    show "finite ?S" by simp
    show "\<And>v. v \<in> ?S \<Longrightarrow> v \<le> real (n - 1) / 10" unfolding S by auto
    show "real (n - 1) / 10 \<in> ?S" unfolding S using n by (auto intro!: image_eqI[of _ _ "n - 1"])
  qed
  moreover have "Min ?S = 0"
  proof (rule Min_eqI)
    show "finite ?S" by simp
    show "\<And>v. v \<in> ?S \<Longrightarrow> 0 \<le> v" unfolding S by auto
    show "0 \<in> ?S" unfolding S using n by (auto intro!: image_eqI[of _ _ 0])
  qed
  ultimately show ?thesis by (simp add: x_span_def)
qed

lemma sqrt_one_plus_square_gt: "m < sqrt (1 + m * m)"
  by (rule real_less_rsqrt) (simp add: power2_eq_square)

lemma generate_straight_steep:
  assumes "20 \<le> m"
  shows "fst (generate_straight (0, 0) (1 / sqrt (1 + m * m), m / sqrt (1 + m * m)) normal_in 20)
         = map (\<lambda>t. (real t / 10, m * real t / 10)) [0..<10]"
proof -
  let ?q = "sqrt (1 + m * m)"
  have m0: "0 < m" using assms by simp
  have q: "m < ?q" by (rule sqrt_one_plus_square_gt)
  then have q20: "20 < ?q" and q0: "0 < ?q" using assms by linarith+
  have ang: "calculate_vector_angle (1 / ?q, m / ?q) = arctan m"
    using q0 by (simp add: calculate_vector_angle_first_quadrant)
  have pos: "\<not> arctan m * m < 0"
    using m0 by (simp add: mult_less_0_iff)
  have c1: "0 < 20 / ?q" using q0 by simp
  have c2: "20 / ?q \<le> 1" using q20 q0 by (simp add: divide_le_eq)
  have ceil: "\<lceil>20 / ?q\<rceil> = 1"
    using c1 c2 by (simp add: ceiling_eq_iff)
  show ?thesis
    using c1
    by (simp add: generate_straight_def ang tan_arctan pos ceil Let_def py_int_def
        del: One_nat_def)
qed

subsection \<open>Bounds on \<open>\<pi>\<close>\<close>

lemma arctan_lower_bound:
  assumes "0 \<le> x"
  shows "x - x ^ 3 / 3 \<le> arctan x"
proof -
  let ?f = "\<lambda>t::real. arctan t - t + t ^ 3 / 3"
  have "?f 0 \<le> ?f x"
  proof (rule DERIV_nonneg_imp_nondecreasing[OF assms])
    fix t :: real
    have d: "(?f has_real_derivative (inverse (1 + t\<^sup>2) - 1 + t\<^sup>2)) (at t)"
      by (auto intro!: derivative_eq_intros simp add: power2_eq_square)
    have p: "0 < 1 + t\<^sup>2" by (simp add: add_pos_nonneg)
    have "(1 - t\<^sup>2) * (1 + t\<^sup>2) \<le> 1"
    proof -
      have "(1 - t\<^sup>2) * (1 + t\<^sup>2) = 1 - (t\<^sup>2)\<^sup>2" by (simp add: algebra_simps power2_eq_square)
      then show ?thesis by simp
    qed
    then have "1 - t\<^sup>2 \<le> inverse (1 + t\<^sup>2)"
      using p by (simp add: inverse_eq_divide pos_le_divide_eq)
    then have "0 \<le> inverse (1 + t\<^sup>2) - 1 + t\<^sup>2" by simp
    with d show "\<exists>y. (?f has_real_derivative y) (at t) \<and> 0 \<le> y" by blast
  qed
  then show ?thesis by simp
qed

lemma arctan_upper_bound:
  assumes "0 \<le> x"
  shows "arctan x \<le> x - x ^ 3 / 3 + x ^ 5 / 5"
proof -
  let ?g = "\<lambda>t::real. t - t ^ 3 / 3 + t ^ 5 / 5 - arctan t"
  have "?g 0 \<le> ?g x"
  proof (rule DERIV_nonneg_imp_nondecreasing[OF assms])
    fix t :: real
    have d: "(?g has_real_derivative (1 - t\<^sup>2 + t ^ 4 - inverse (1 + t\<^sup>2))) (at t)"
      by (auto intro!: derivative_eq_intros simp add: power2_eq_square)
    have p: "0 < 1 + t\<^sup>2" by (simp add: add_pos_nonneg)
    have "1 \<le> (1 - t\<^sup>2 + t ^ 4) * (1 + t\<^sup>2)"
    proof -
      have "(1 - t\<^sup>2 + t ^ 4) * (1 + t\<^sup>2) = 1 + (t ^ 3)\<^sup>2"
        by (simp add: algebra_simps power2_eq_square power3_eq_cube power4_eq_xxxx)
      then show ?thesis by simp
    qed
    then have "inverse (1 + t\<^sup>2) \<le> 1 - t\<^sup>2 + t ^ 4"
      using p by (simp add: inverse_eq_divide pos_divide_le_eq)
    then have "0 \<le> 1 - t\<^sup>2 + t ^ 4 - inverse (1 + t\<^sup>2)" by simp
    with d show "\<exists>y. (?g has_real_derivative y) (at t) \<and> 0 \<le> y" by blast
  qed
  then show ?thesis by simp
qed

lemma pi_bounds: "3.14 < pi" "pi < 3.142"
proof -
  have m: "pi = 16 * arctan (1 / 5) - 4 * arctan (1 / 239)"
    using machin by simp
  have l5: "(0.19733 :: real) \<le> arctan (1 / 5)"
    using arctan_lower_bound[of "1 / 5"] by (simp add: power_divide)
  have u5: "arctan (1 / 5 :: real) \<le> 0.1974"
    using arctan_upper_bound[of "1 / 5"] by (simp add: power_divide)
  have l239: "(0.00418 :: real) \<le> arctan (1 / 239)"
    using arctan_lower_bound[of "1 / 239"] by (simp add: power_divide)
  have u239: "arctan (1 / 239 :: real) \<le> 0.00419"
    using arctan_upper_bound[of "1 / 239"] by (simp add: power_divide)
  show "3.14 < pi" unfolding m using l5 u239 by simp
  show "pi < 3.142" unfolding m using u5 l239 by simp
qed

subsection \<open>Facts about the constant turn\<close>

lemma rotation_preserves_norm:
  "(cos a * dx - sin a * dy) * (cos a * dx - sin a * dy)
   + (sin a * dx + cos a * dy) * (sin a * dx + cos a * dy) = dx * dx + dy * (dy :: real)"
proof -
  have e: "cos a * cos a = 1 - sin a * sin a"
    using sin_cos_squared_add[of a] by (simp add: power2_eq_square)
  show ?thesis by (simp add: algebra_simps e)
qed

lemma generate_constant_turn_positive:
  fixes start_point tangent_in normal_in :: point
    and radius circle_percent :: real and turn_against_normal :: bool
  assumes r: "0 < radius" and p: "0 < circle_percent"
    and u: "fst normal_in * fst normal_in + snd normal_in * snd normal_in = 1"
  shows "\<exists>points tangent_out normal_out.
            generate_constant_turn start_point tangent_in normal_in turn_against_normal
              circle_percent radius
            = Inr (points, tangent_out, normal_out, radius * (circle_percent * (2 * pi))) \<and>
            int (length points) = \<lceil>radius * (circle_percent * (2 * pi))\<rceil> + 1 \<and>
            normal_out =
              ((fst (last points)
                - (fst start_point
                   + (if turn_against_normal then - fst normal_in else fst normal_in) * radius))
               / radius,
               (snd (last points)
                - (snd start_point
                   + (if turn_against_normal then - snd normal_in else snd normal_in) * radius))
               / radius) \<and>
            fst normal_out * fst normal_out + snd normal_out * snd normal_out = 1"
proof -
  define nv where
    "nv = (if turn_against_normal then (- fst normal_in, - snd normal_in) else normal_in)"
  define center where
    "center = (fst start_point + fst nv * radius, snd start_point + snd nv * radius)"
  define len where "len = circle_percent * pi * 2 * radius"
  define cf where
    "cf = get_parametric_circle start_point center
            ((if fst tangent_in * snd nv - snd tangent_in * fst nv < 0 then - 1 else 1)
             * (circle_percent * pi * 2))"
  define points where
    "points = map (\<lambda>t. cf (real t / of_int \<lceil>len\<rceil>)) [0..<nat (\<lceil>len\<rceil> + 1)]"
  have lenpos: "0 < len" using r p by (simp add: len_def)
  moreover have "len \<le> of_int \<lceil>len\<rceil>" by (rule le_of_int_ceiling)
  ultimately have "(0 :: real) < of_int \<lceil>len\<rceil>" by linarith
  then have "0 < \<lceil>len\<rceil>" by (simp only: of_int_0_less_iff)
  then have F: "1 \<le> \<lceil>len\<rceil>" by linarith
  define n where "n = nat \<lceil>len\<rceil>"
  have z: "0 \<le> \<lceil>len\<rceil>" using F by linarith
  have n: "\<lceil>len\<rceil> = int n" unfolding n_def using z by (rule nat_0_le[symmetric])
  have n1: "1 \<le> n" using F n by linarith
  have cnt: "int (length points) = \<lceil>len\<rceil> + 1" by (simp add: points_def n)
  have "last points = cf (real n / of_int (int n))"
    unfolding points_def n by (simp add: nat_add_distrib)
  also have "real n / of_int (int n) = 1" using n1 by simp
  finally have l: "last points = cf 1" .
  have nvu: "fst nv * fst nv + snd nv * snd nv = 1" using u by (simp add: nv_def)
  obtain a where a: "cf 1 = (cos a * (fst start_point - fst center)
                              - sin a * (snd start_point - snd center) + fst center,
                             sin a * (fst start_point - fst center)
                              + cos a * (snd start_point - snd center) + snd center)"
    by (simp add: cf_def get_parametric_circle_def Let_def)
  let ?dx = "fst start_point - fst center" and ?dy = "snd start_point - snd center"
  have d: "?dx * ?dx + ?dy * ?dy = radius * radius"
  proof -
    have "?dx * ?dx + ?dy * ?dy = (fst nv * fst nv + snd nv * snd nv) * (radius * radius)"
      by (simp add: center_def algebra_simps)
    then show ?thesis by (simp add: nvu)
  qed
  have sq: "(fst (last points) - fst center) * (fst (last points) - fst center)
            + (snd (last points) - snd center) * (snd (last points) - snd center)
            = radius * radius"
    by (simp add: l a rotation_preserves_norm d)
  then have mag: "magnitude (fst (last points) - fst center, snd (last points) - snd center)
                  = radius"
    using r by (simp add: magnitude_def)
  have unit: "((fst (last points) - fst center) / radius) * ((fst (last points) - fst center) / radius)
         + ((snd (last points) - snd center) / radius) * ((snd (last points) - snd center) / radius)
         = 1"
  proof -
    have "((fst (last points) - fst center) / radius) * ((fst (last points) - fst center) / radius)
         + ((snd (last points) - snd center) / radius) * ((snd (last points) - snd center) / radius)
         = ((fst (last points) - fst center) * (fst (last points) - fst center)
            + (snd (last points) - snd center) * (snd (last points) - snd center))
           / (radius * radius)"
      by (simp add: add_divide_distrib)
    then show ?thesis using r by (simp add: sq)
  qed
  have nrm: "normalize_vec (fst (last points) - fst center, snd (last points) - snd center)
             = Inr ((fst (last points) - fst center) / radius,
                    (snd (last points) - snd center) / radius)"
    using r by (simp add: normalize_vec_def mag Let_def)
  have two: "\<not> length points < 2" using cnt n n1 by linarith
  then obtain angle where ang: "calculate_tangent_angle points = Inr angle"
    by (simp add: calculate_tangent_angle_def Let_def)
  have F0: "\<not> \<lceil>len\<rceil> + 1 \<le> 0" "\<lceil>len\<rceil> \<noteq> 0" using F by linarith+
  have res: "generate_constant_turn start_point tangent_in normal_in turn_against_normal
             circle_percent radius
        = Inr (points, (cos angle, sin angle),
                  ((fst (last points) - fst center) / radius,
                   (snd (last points) - snd center) / radius), len)"
    using F0 nrm ang
    unfolding generate_constant_turn_def calculate_tangent_vector_def Let_def
      points_def cf_def len_def center_def nv_def
    by simp
  have e: "len = radius * (circle_percent * (2 * pi))" by (simp add: len_def)
  have cx: "fst center = fst start_point
              + (if turn_against_normal then - fst normal_in else fst normal_in) * radius"
    and cy: "snd center = snd start_point
              + (if turn_against_normal then - snd normal_in else snd normal_in) * radius"
    by (simp_all add: center_def nv_def)
  show ?thesis
    apply (rule exI[of _ points])
    apply (rule exI[of _ "(cos angle, sin angle)"])
    apply (rule exI[of _ "((fst (last points) - fst center) / radius,
                          (snd (last points) - snd center) / radius)"])
    apply (intro conjI)
       apply (simp only: res e)
      apply (simp only: cnt e)
     apply (simp only: cx cy)
    apply (simp only: fst_conv snd_conv unit)
    done
qed

subsection \<open>The quarter turn of radius 10\<close>

lemma five_pi_bounds: "15.7 < 5 * pi" "5 * pi < 15.71" "\<lceil>5 * pi\<rceil> = 16"
proof -
  show a: "15.7 < 5 * pi" using pi_bounds(1) by simp
  show b: "5 * pi < 15.71" using pi_bounds(2) by simp
  from a b show "\<lceil>5 * pi\<rceil> = 16" by (simp add: ceiling_eq_iff)
qed

lemma sin_cos_pi_64:
  "0 < sin (pi / 64)" "sin (pi / 64) < 0.05" "0.998 < cos (pi / 64)" "cos (pi / 64) \<le> 1"
proof -
  have u: "0 < pi / 64" "pi / 64 < 0.05" using pi_bounds by simp_all
  show s0: "0 < sin (pi / 64)"
    by (rule sin_gt_zero) (use u pi_bounds in simp_all)
  have "sin (pi / 64) \<le> pi / 64" by (rule sin_x_le_x) simp
  with u show "sin (pi / 64) < 0.05" by linarith
  have h: "\<bar>sin (pi / 128)\<bar> \<le> \<bar>pi / 128\<bar>" by (rule abs_sin_x_le_abs_x)
  have h0: "0 \<le> sin (pi / 128)" by (rule sin_ge_zero) (use pi_bounds in simp_all)
  from h h0 u have h1: "sin (pi / 128) \<le> 0.025" by simp
  have "(sin (pi / 128))\<^sup>2 \<le> 0.025\<^sup>2"
    using h0 h1 by (intro power_mono) simp_all
  moreover have "cos (pi / 64) = 1 - 2 * (sin (pi / 128))\<^sup>2"
    using cos_double_sin[of "pi / 128"] by simp
  ultimately show "0.998 < cos (pi / 64)" by (simp add: power2_eq_square)
  show "cos (pi / 64) \<le> 1" by simp
qed

lemma sin_cos_complement: "sin (pi / 2 - x) = cos x" "cos (pi / 2 - x) = sin x"
  by (simp_all add: sin_diff cos_diff)

lemma quarter_turn_tangent_angle:
  "atan2 (10 * cos (15 * pi / 32)) (10 - 10 * sin (15 * pi / 32)) = pi / 2 - pi / 64"
proof -
  let ?s = "sin (pi / 64)" and ?c = "cos (pi / 64)"
  have s0: "0 < ?s" by (rule sin_cos_pi_64(1))
  have e: "15 * pi / 32 = pi / 2 - pi / 32" by simp
  have s15: "sin (15 * pi / 32) = cos (pi / 32)"
    using sin_cos_complement(1)[of "pi / 32"] by (simp only: e)
  have c15: "cos (15 * pi / 32) = sin (pi / 32)"
    using sin_cos_complement(2)[of "pi / 32"] by (simp only: e)
  have ds: "sin (pi / 32) = 2 * ?s * ?c" using sin_double[of "pi / 64"] by simp
  have dc: "cos (pi / 32) = 1 - 2 * ?s\<^sup>2" using cos_double_sin[of "pi / 64"] by simp
  have dx: "10 - 10 * sin (15 * pi / 32) = 20 * ?s\<^sup>2" by (simp add: s15 dc)
  have dy: "10 * cos (15 * pi / 32) = 20 * ?s * ?c" by (simp add: c15 ds)
  have dxpos: "0 < 20 * ?s\<^sup>2" using s0 by simp
  have q: "(20 * ?s * ?c) / (20 * ?s\<^sup>2) = ?c / ?s"
    using s0 by (simp add: power2_eq_square)
  have t: "tan (pi / 2 - pi / 64) = ?c / ?s"
    by (simp only: tan_def sin_cos_complement)
  have "arctan (?c / ?s) = pi / 2 - pi / 64"
    by (rule arctan_unique) (use t pi_bounds in simp_all)
  then show ?thesis
    unfolding dx dy using dxpos by (simp only: atan2_def if_True q)
qed

lemma quarter_turn:
  "generate_constant_turn (0, 0) (1, 0) (0, 1) False (1 / 4) 10
   = Inr (quarter_turn_points, (sin (pi / 64), cos (pi / 64)), (1, 0), 5 * pi)"
proof -
  have ang: "calculate_tangent_angle quarter_turn_points = Inr (pi / 2 - pi / 64)"
    using quarter_turn_tangent_angle
    by (simp add: calculate_tangent_angle_def quarter_turn_points_def Let_def)
  have ctv: "calculate_tangent_vector quarter_turn_points = Inr (sin (pi / 64), cos (pi / 64))"
    by (simp only: calculate_tangent_vector_def ang sum.case sin_cos_complement)
  have lastp: "last quarter_turn_points = (10, 10)"
    by (simp add: quarter_turn_points_def last_map)
  have nrm: "normalize_vec (fst (last quarter_turn_points) - 0, snd (last quarter_turn_points) - 10)
             = Inr (1, 0)"
    by (simp add: lastp normalize_vec_def magnitude_def)
  have pts: "map (\<lambda>t. get_parametric_circle (0, 0) (0, 10) (pi / 2) (real t / 16)) [0..<17]
             = quarter_turn_points"
    by (simp add: get_parametric_circle_def quarter_turn_points_def Let_def mult.commute)
  have "generate_constant_turn (0, 0) (1, 0) (0, 1) False (1 / 4) 10
        = (let points = map (\<lambda>t. get_parametric_circle (0, 0) (0, 10) (pi / 2) (real t / 16))
                          [0..<17]
           in case normalize_vec (fst (last points) - 0, snd (last points) - 10) of
                Inl e \<Rightarrow> Inl e
              | Inr normal \<Rightarrow>
                  (case calculate_tangent_vector points of
                     Inl e \<Rightarrow> Inl e
                   | Inr tangent_out \<Rightarrow> Inr (points, tangent_out, normal, 5 * pi)))"
    by (simp add: generate_constant_turn_def Let_def five_pi_bounds(3) cong: sum.case_cong)
  also have "\<dots> = Inr (quarter_turn_points, (sin (pi / 64), cos (pi / 64)), (1, 0), 5 * pi)"
    by (simp only: Let_def pts nrm ctv sum.case)
  finally show ?thesis .
qed

subsection \<open>Facts about the arc-to-goal solver\<close>

lemma normalize_unit:
  "fst v * fst v + snd v * snd v = 1 \<Longrightarrow> normalize_vec v = Inr v"
  by (simp add: normalize_vec_def magnitude_def)

lemma facing_point_theta_goal_at_centre:
  assumes "fst normal_in * fst normal_in + snd normal_in * snd normal_in = 1"
  shows "facing_point_theta start_point
           (fst start_point
              + radius * (if turn_against_normal then - fst normal_in else fst normal_in),
            snd start_point
              + radius * (if turn_against_normal then - snd normal_in else snd normal_in))
           tangent_in normal_in turn_against_normal radius
         = Inl ZeroDivisionError"
proof (cases turn_against_normal)
  case True
  have "normalize_vec (- fst normal_in, - snd normal_in) = Inr (- fst normal_in, - snd normal_in)"
    using assms by (intro normalize_unit) simp
  with True show ?thesis
    by (simp add: facing_point_theta_def Let_def magnitude_def)
next
  case False
  have "normalize_vec normal_in = Inr normal_in"
    using assms by (rule normalize_unit)
  with False show ?thesis
    by (simp add: facing_point_theta_def Let_def magnitude_def)
qed

subsection \<open>A sample pass of the Circle and Line composer\<close>

lemma generate_straight_initial:
  "fst (generate_straight (0, 0) (1, 0) normal_in 10) = map (\<lambda>t. (real t / 10, 0)) [0..<100]"
  by (simp add: generate_straight_def calculate_vector_angle_first_quadrant Let_def py_int_def)

lemma compactify_from_append:
  "compactify_from q (xs @ ys)
   = compactify_from q xs @ compactify_from (if xs = [] then q else last xs) ys"
  by (induction xs arbitrary: q) simp_all

lemma int_point_initial:
  "int_point (real t / 10, 0) = (int (t div 10), 0)"
proof -
  have "\<lfloor>real t / real 10\<rfloor> = int (t div 10)"
    by (rule floor_divide_of_nat_eq)
  then show ?thesis by (simp add: int_point_def py_int_def)
qed

lemma initial_straight_cells:
  "compactify_from (-10000, -10000) (map (\<lambda>t. (int (t div 10), 0)) [0..<100])
   = [(0,0),(1,0),(2,0),(3,0),(4,0),(5,0),(6,0),(7,0),(8,0),(9,0)]"
  by code_simp

lemma initial_straight_compact:
  "compactify_points (map int_point (map (\<lambda>t. (real t / 10, 0 :: real)) [0..<100] @ rest))
   = [(0,0),(1,0),(2,0),(3,0),(4,0),(5,0),(6,0),(7,0),(8,0),(9,0)]
     @ compactify_from (9, 0) (map int_point rest)"
proof -
  let ?cells = "map (\<lambda>t. (int (t div 10), 0 :: int)) [0..<100]"
  have m: "map int_point (map (\<lambda>t. (real t / 10, 0 :: real)) [0..<100]) = ?cells"
    by (simp add: int_point_initial)
  have l: "last ?cells = (9, 0)"
    by (simp add: last_map)
  have n: "?cells \<noteq> []" by simp
  have "compactify_points (map int_point (map (\<lambda>t. (real t / 10, 0 :: real)) [0..<100] @ rest))
        = compactify_from (-10000, -10000) (?cells @ map int_point rest)"
    unfolding compactify_points_def map_append m ..
  also have "\<dots> = compactify_from (-10000, -10000) ?cells
                  @ compactify_from (last ?cells) (map int_point rest)"
    using n by (simp only: compactify_from_append if_False)
  finally show ?thesis by (simp only: initial_straight_cells l)
qed

section \<open>Claims\<close>

text \<open>
  C1. Every result that \<open>generate\<close> returns satisfies the contract, whichever
  reflections were drawn: all coordinates are at least 0, and the width and the height
  exceed the span of the returned x and y coordinates by at least 10. (The coordinates
  in fact stay at least 9 away from 0 and from the width and the height.)
\<close>

theorem generate_result_contract:
  assumes "generate values runs flip_x flip_y = Some (Inr (pts, w, h))"
  shows "(\<forall>p \<in> set pts. 0 \<le> fst p \<and> 0 \<le> snd p) \<and>
         (\<forall>p \<in> set pts. \<forall>q \<in> set pts.
            fst p - fst q + 10 \<le> of_int w \<and> snd p - snd q + 10 \<le> of_int h) \<and>
         (\<forall>p \<in> set pts. 9 \<le> fst p \<and> fst p \<le> of_int w - 9 \<and>
                          9 \<le> snd p \<and> snd p \<le> of_int h - 9)"
proof -
  from assms obtain cfg c where
    loop: "generate_loop cfg runs 0 = Some (Inr c)"
    and res: "(pts, w, h) = flipped flip_x flip_y c"
    by (auto simp add: generate_def split: sum.splits option.splits)
  from loop have "first_exit cfg runs = Some (Some (Inr c))"
    by (auto simp add: generate_loop_exit split: if_splits option.splits)
  from first_exit_accepted[OF this] obtain r where
    "generate_function cfg r = Some (Inr c)" "\<not> overlap_rejected c"
    by blast
  from generate_function_result[OF this] obtain xys where
    c: "c = convert_points_to_all_positive xys" ..
  obtain pts0 w0 h0 where c0: "convert_points_to_all_positive xys = (pts0, w0, h0)"
    by (cases "convert_points_to_all_positive xys")
  from flipped_margin[OF convert_margin[OF c0], of flip_x flip_y pts w h] res c c0
  have m: "\<forall>p \<in> set pts. 9 \<le> fst p \<and> fst p \<le> of_int w - 9 \<and>
                          9 \<le> snd p \<and> snd p \<le> of_int h - 9"
    by simp
  have 1: "\<forall>p \<in> set pts. 0 \<le> fst p \<and> 0 \<le> snd p"
    using m by fastforce
  have 2: "\<forall>p \<in> set pts. \<forall>q \<in> set pts.
            fst p - fst q + 10 \<le> of_int w \<and> snd p - snd q + 10 \<le> of_int h"
  proof (intro ballI)
    fix p q assume "p \<in> set pts" "q \<in> set pts"
    with m have "fst p \<le> of_int w - 9" "9 \<le> fst q" "snd p \<le> of_int h - 9" "9 \<le> snd q"
      by auto
    then show "fst p - fst q + 10 \<le> of_int w \<and> snd p - snd q + 10 \<le> of_int h"
      by simp
  qed
  from 1 2 m show ?thesis by blast
qed

theorem generate_result_contract_witness:
  "generate [10, 80, 5, 15, 4.5, 10, 3, 500, 1, 1]
     [\<lparr> attempts = [], recursion_room = 0, bezier_xys = [(0, 0), (1, 2)] \<rparr>] True True
     = Some (Inr ([(11, 12), (10, 10)], 21, 22)) \<and>
   list_all (\<lambda>p. 0 \<le> fst p \<and> 0 \<le> snd p) ([(11, 12), (10, 10)] :: point list) \<and>
   list_all (\<lambda>p. list_all (\<lambda>q. fst p - fst q + 10 \<le> of_int (21 :: int) \<and>
                                 snd p - snd q + 10 \<le> of_int (22 :: int))
                        ([(11, 12), (10, 10)] :: point list))
            ([(11, 12), (10, 10)] :: point list)"
proof -
  let ?cfg = "\<lparr> MIN_STRAIGHT = 10, MAX_STRAIGHT = 80, MIN_CONSTANT_TURN = 5,
           MAX_CONSTANT_TURN = 15, MIN_HAIRPIN = 4.5, MAX_HAIRPIN = 10,
           MAX_HAIRPIN_NUM = 3, MIN_HAIRPIN_NUM = 1, MAX_TRACK_LENGTH = 500,
           LAX_GENERATION = True, TRACK_MODE = ''Bezier'' \<rparr>"
  have m: "TRACK_MODE ?cfg = ''Bezier''" by simp
  have g: "generate [10, 80, 5, 15, 4.5, 10, 3, 500, 1, 1]
     [\<lparr> attempts = [], recursion_room = 0, bezier_xys = [(0, 0), (1, 2)] \<rparr>] True True
     = Some (Inr ([(11, 12), (10, 10)], 21, 22))"
  proof -
    have "generate_loop ?cfg [\<lparr> attempts = [], recursion_room = 0, bezier_xys = [(0, 0), (1, 2)] \<rparr>] 0
          = Some (Inr ([(10, 10), (11, 12)], 21, 22))"
      using bezier_short_accepted
      by (simp add: bezier_short_candidate retried_def overlap_rejected_def)
    moreover have "flipped True True ([(10, 10), (11, 12)], 21, 22)
                   = ([(11, 12), (10, 10)], 21, 22)"
      by (simp add: flipped_def)
    ultimately show ?thesis
      by (simp only: generate_def set_data_bezier sum.case option.case)
  qed
  from generate_result_contract[OF g] g show ?thesis by (simp add: list_all_iff)
qed

text \<open>
  C2. With lax generation off, the composer returns a pass whose final straight
  respects the maximum straight length and whose accumulated length is at most 1500,
  whatever the configured \<open>MAX_TRACK_LENGTH\<close> is: the length check compares with the
  literal 1500. A configuration with maximum length 500 therefore gets a candidate of
  accumulated length 600.
\<close>

theorem composer_length_check_ignores_configuration:
  assumes "\<not> LAX_GENERATION cfg"
    and "fst (generate_straight start_point
                (calculate_vector_from_angle (start_angle a))
                (calculate_vector_from_angle (start_angle a + pi / 4))
                (MIN_STRAIGHT cfg)) = generated"
    and "generated \<noteq> []"
    and "checkpoint_loop (legs a) generated = Inr (Inr xys)"
    and "closing a = Inr closing_points"
    and "straight_length a + MIN_STRAIGHT cfg \<le> MAX_STRAIGHT cfg"
    and "cur_track_length a \<le> 1500"
  shows "generate_autocross_trackdrive_track cfg start_point room (a # restarts) =
           Some (Inr (convert_points_to_all_positive (xys @ closing_points)))"
  using assms by (simp add: Let_def)

theorem composer_length_check_ignores_configuration_witness:
  "set_data [10, 80, 10, 25, 4.5, 10, 3, 500, 0, 0] =
     Inr \<lparr> MIN_STRAIGHT = 10, MAX_STRAIGHT = 80, MIN_CONSTANT_TURN = 10,
           MAX_CONSTANT_TURN = 25, MIN_HAIRPIN = 4.5, MAX_HAIRPIN = 10,
           MAX_HAIRPIN_NUM = 3, MIN_HAIRPIN_NUM = 1, MAX_TRACK_LENGTH = 500,
           LAX_GENERATION = False, TRACK_MODE = ''Circle&Line'' \<rparr> \<and>
   generate_autocross_trackdrive_track
     \<lparr> MIN_STRAIGHT = 10, MAX_STRAIGHT = 80, MIN_CONSTANT_TURN = 10,
       MAX_CONSTANT_TURN = 25, MIN_HAIRPIN = 4.5, MAX_HAIRPIN = 10,
       MAX_HAIRPIN_NUM = 3, MIN_HAIRPIN_NUM = 1, MAX_TRACK_LENGTH = 500,
       LAX_GENERATION = False, TRACK_MODE = ''Circle&Line'' \<rparr>
     (0, 0) 0
     [\<lparr> start_angle = 0, legs = [Inr [(40, 0)], Inr [(60, 40)], Inr [(-15, 60)]],
        closing = Inr [(-40, 50), (-6, 0)], straight_length = 7, cur_track_length = 600 \<rparr>]
     = Some (Inr (convert_points_to_all_positive
                    (map (\<lambda>t. (real t / 10, 0)) [0..<100]
                     @ [(40, 0), (60, 40), (-15, 60), (-40, 50), (-6, 0)])))"
proof -
  let ?cfg = "\<lparr> MIN_STRAIGHT = 10, MAX_STRAIGHT = 80, MIN_CONSTANT_TURN = 10,
       MAX_CONSTANT_TURN = 25, MIN_HAIRPIN = 4.5, MAX_HAIRPIN = 10,
       MAX_HAIRPIN_NUM = 3, MIN_HAIRPIN_NUM = 1, MAX_TRACK_LENGTH = 500,
       LAX_GENERATION = False, TRACK_MODE = ''Circle&Line'' \<rparr>"
  let ?a = "\<lparr> start_angle = 0, legs = [Inr [(40, 0)], Inr [(60, 40)], Inr [(-15, 60)]],
        closing = Inr [(-40, 50), (-6, 0)], straight_length = 7, cur_track_length = 600 \<rparr>"
  let ?g = "map (\<lambda>t. (real t / 10, 0 :: real)) [0..<100]"
  have s: "set_data [10, 80, 10, 25, 4.5, 10, 3, 500, 0, 0] = Inr ?cfg"
    by (simp add: set_data_def get_mode_from_number_def)
  have 1: "\<not> LAX_GENERATION ?cfg" by simp
  have 2: "fst (generate_straight (0, 0)
                (calculate_vector_from_angle (start_angle ?a))
                (calculate_vector_from_angle (start_angle ?a + pi / 4))
                (MIN_STRAIGHT ?cfg)) = ?g"
    by (simp add: calculate_vector_from_angle_def generate_straight_initial)
  have 3: "?g \<noteq> []" by simp
  have c1: "\<not> check_if_overlap (compactify_points (map int_point (?g @ [(40, 0)])))"
    unfolding initial_straight_compact
    by (simp add: int_point_def py_int_def check_if_overlap_def)
  have c2: "\<not> check_if_overlap
                (compactify_points (map int_point (?g @ [(40, 0), (60, 40)])))"
    unfolding initial_straight_compact
    by (simp add: int_point_def py_int_def check_if_overlap_def)
  have c3: "\<not> check_if_overlap
                (compactify_points (map int_point (?g @ [(40, 0), (60, 40), (-15, 60)])))"
    unfolding initial_straight_compact
    by (simp add: int_point_def py_int_def check_if_overlap_def)
  have "checkpoint_loop [Inr [(40, 0)], Inr [(60, 40)], Inr [(-15, 60)]] ?g
           = Inr (Inr (?g @ [(40, 0), (60, 40), (-15, 60)]))"
    by (simp only: checkpoint_loop.simps sum.case Let_def append_assoc append_Cons
          append_Nil c1 c2 c3 if_False)
  then have 4: "checkpoint_loop (legs ?a) ?g
           = Inr (Inr (?g @ [(40, 0), (60, 40), (-15, 60)]))"
    by simp
  have 5: "closing ?a = Inr [(-40, 50), (-6, 0)]" by simp
  have 6: "straight_length ?a + MIN_STRAIGHT ?cfg \<le> MAX_STRAIGHT ?cfg" by simp
  have 7: "cur_track_length ?a \<le> 1500" by simp
  from composer_length_check_ignores_configuration[OF 1 2 3 4 5 6 7, of 0 "[]"] s
  show ?thesis by simp
qed

text \<open>
  C3. For a name that is not one of the four preset names, \<open>get_preset\<close> logs its two
  diagnostics and then raises \<open>NameError\<close>: the fallback call names \<open>get_preset\<close>
  bare, and that name is not bound at module level. The ``Contest Rules'' vector is not
  returned.
\<close>

theorem get_preset_unknown_name_raises:
  "name \<notin> set (map fst get_presets) \<Longrightarrow>
   get_preset name =
     ([''No such preset: '' @ name, ''Defaulting to Contest Rules''],
      Inl (NameError ''get_preset''))"
proof -
  assume a: "name \<notin> set (map fst get_presets)"
  have "\<And>ps. name \<notin> set (map fst ps) \<Longrightarrow> preset_loop ps name = None"
  proof -
    fix ps show "name \<notin> set (map fst ps) \<Longrightarrow> preset_loop ps name = None"
      by (induction ps) auto
  qed
  from this[OF a] have n: "preset_loop get_presets name = None" .
  have g: "''get_preset'' \<notin> set module_globals"
    by (simp add: module_globals_def launcher_utilities_names_def)
  show ?thesis by (simp add: get_preset_def n g)
qed

theorem get_preset_unknown_name_raises_witness:
  "''Autocross'' \<notin> set (map fst get_presets) \<and>
   get_preset ''Autocross'' =
     ([''No such preset: Autocross'', ''Defaulting to Contest Rules''],
      Inl (NameError ''get_preset''))"
proof -
  have a: "''Autocross'' \<notin> set (map fst get_presets)"
    by (simp add: get_presets_def)
  from get_preset_unknown_name_raises[OF a] a show ?thesis by simp
qed







text \<open>
  C6, as the claim states it, fails: the quarter turn of radius 10 returns seventeen
  points, and the ceiling of its arc length \<open>5\<pi>\<close> is sixteen.
\<close>

theorem generate_constant_turn_sample_count_counterexample:
  "generate_constant_turn (0, 0) (1, 0) (0, 1) False (1 / 4) 10
     = Inr (quarter_turn_points, (sin (pi / 64), cos (pi / 64)), (1, 0), 5 * pi) \<and>
   length quarter_turn_points = 17 \<and> \<lceil>5 * pi\<rceil> = 16 \<and>
   int (length quarter_turn_points) \<noteq> \<lceil>5 * pi\<rceil>"
  by (simp add: quarter_turn five_pi_bounds(3)) (simp add: quarter_turn_points_def)

text \<open>
  C6, amended. For a positive radius \<open>r\<close>, a positive circle percent \<open>p\<close> and a unit
  normal, \<open>generate_constant_turn\<close> returns the arc length \<open>r (p 2\<pi>)\<close>, one point more
  than the ceiling of the arc length (both ends of the arc are sampled), and as exit
  normal the vector from the circle centre to the final point divided by the radius,
  which has length 1. With circle percent 0.25, radius 10, tangent \<open>(1, 0)\<close>, normal
  \<open>(0, 1)\<close>, turning with the normal from the origin, the exit tangent is
  \<open>(sin(\<pi>/64), cos(\<pi>/64))\<close>, within 0.05 of \<open>(0, 1)\<close>, and the arc length is \<open>5\<pi>\<close>,
  within 0.01 of 15.71.
\<close>

theorem generate_constant_turn_contract:
  fixes start_point tangent_in normal_in :: point
    and radius circle_percent :: real and turn_against_normal :: bool
  assumes "0 < radius" and "0 < circle_percent"
    and "fst normal_in * fst normal_in + snd normal_in * snd normal_in = 1"
  shows "(\<exists>points tangent_out normal_out.
            generate_constant_turn start_point tangent_in normal_in turn_against_normal
              circle_percent radius
            = Inr (points, tangent_out, normal_out, radius * (circle_percent * (2 * pi))) \<and>
            int (length points) = \<lceil>radius * (circle_percent * (2 * pi))\<rceil> + 1 \<and>
            normal_out =
              ((fst (last points)
                - (fst start_point
                   + (if turn_against_normal then - fst normal_in else fst normal_in) * radius))
               / radius,
               (snd (last points)
                - (snd start_point
                   + (if turn_against_normal then - snd normal_in else snd normal_in) * radius))
               / radius) \<and>
            fst normal_out * fst normal_out + snd normal_out * snd normal_out = 1) \<and>
         generate_constant_turn (0, 0) (1, 0) (0, 1) False (1 / 4) 10
           = Inr (quarter_turn_points, (sin (pi / 64), cos (pi / 64)), (1, 0), 5 * pi) \<and>
         length quarter_turn_points = 17 \<and>
         \<bar>sin (pi / 64) - 0\<bar> < 0.05 \<and> \<bar>cos (pi / 64) - 1\<bar> < 0.002 \<and>
         \<bar>5 * pi - 15.71\<bar> < 0.01"
proof -
  note general = generate_constant_turn_positive[OF assms, of start_point tangent_in
      turn_against_normal]
  have s: "\<bar>sin (pi / 64) - 0\<bar> < 0.05" using sin_cos_pi_64(1,2) by simp
  have co: "\<bar>cos (pi / 64) - 1\<bar> < 0.002" using sin_cos_pi_64(3,4) by simp
  have l: "\<bar>5 * pi - 15.71\<bar> < 0.01" using five_pi_bounds(1,2) by simp
  have n: "length quarter_turn_points = 17" by (simp add: quarter_turn_points_def)
  from general quarter_turn n s co l show ?thesis by blast
qed

theorem generate_constant_turn_contract_witness:
  "(0 :: real) < 10 \<and> (0 :: real) < 1 / 4 \<and>
   fst ((0, 1) :: point) * fst ((0, 1) :: point)
     + snd ((0, 1) :: point) * snd ((0, 1) :: point) = 1 \<and>
   (\<exists>points tangent_out normal_out.
      generate_constant_turn (0, 0) (1, 0) (0, 1) False (1 / 4) 10
        = Inr (points, tangent_out, normal_out, 10 * (1 / 4 * (2 * pi))) \<and>
      int (length points) = \<lceil>10 * (1 / 4 * (2 * pi))\<rceil> + 1)"
proof -
  have h1: "(0 :: real) < 10" and h2: "(0 :: real) < 1 / 4" by simp_all
  have h3: "fst ((0, 1) :: point) * fst ((0, 1) :: point)
            + snd ((0, 1) :: point) * snd ((0, 1) :: point) = 1"
    by simp
  from generate_constant_turn_contract[OF h1 h2 h3, of "(0, 0)" "(1, 0)" False] h1 h2 h3
  show ?thesis by blast
qed

text \<open>
  C7, as the claim states it, fails: for tangent \<open>(1, 0)\<close> and length 20 the points do
  not span 20 units along x.
\<close>

theorem generate_straight_span_counterexample:
  "x_span (fst (generate_straight (0, 0) (1, 0) (0, 1) 20)) \<noteq> 20"
  by (simp add: generate_straight_along_x x_span_samples)

text \<open>
  C7, amended. For every input \<open>generate_straight\<close> returns the tangent and the normal
  unchanged and the requested length as the length added. For tangent \<open>(1, 0)\<close>,
  normal \<open>(0, 1)\<close> and length 20 from the origin the points are the 200 samples
  \<open>(t/10, 0)\<close>, \<open>t = 0, \<dots>, 199\<close>: they span 19.9 units along x, the end point at 20 is
  not sampled.
\<close>

theorem generate_straight_pass_through:
  "(\<forall>start_point tangent_in normal_in len.
      snd (generate_straight start_point tangent_in normal_in len) = (tangent_in, normal_in, len))
   \<and> generate_straight (0, 0) (1, 0) (0, 1) 20
       = (map (\<lambda>t. (real t / 10, 0)) [0..<200], (1, 0), (0, 1), 20)
   \<and> x_span (fst (generate_straight (0, 0) (1, 0) (0, 1) 20)) = 199 / 10"
proof -
  have "generate_straight (0, 0) (1, 0) (0, 1) 20
        = (fst (generate_straight (0, 0) (1, 0) (0, 1) 20),
           snd (generate_straight (0, 0) (1, 0) (0, 1) 20))"
    by simp
  then have "generate_straight (0, 0) (1, 0) (0, 1) 20
       = (map (\<lambda>t. (real t / 10, 0)) [0..<200], (1, 0), (0, 1), 20)"
    by (simp only: generate_straight_along_x generate_straight_snd)
  moreover have "x_span (fst (generate_straight (0, 0) (1, 0) (0, 1) 20)) = 199 / 10"
    by (simp add: generate_straight_along_x x_span_samples)
  ultimately show ?thesis by (simp add: generate_straight_snd)
qed

text \<open>
  C8. For a steep unit tangent the straight overshoots without bound: with slope
  \<open>m \<ge> 20\<close> and requested length 20 the ten points drawn are \<open>(t/10, m t/10)\<close>,
  \<open>t = 0, \<dots>, 9\<close>, so the last one lies \<open>0.9 m\<close> above the start, however large
  \<open>m\<close> is. At slope 1000 the segment ends 900 units up instead of 20 units away.
\<close>

theorem generate_straight_near_vertical_overshoots:
  "20 \<le> m \<Longrightarrow>
   fst (generate_straight (0, 0) (1 / sqrt (1 + m * m), m / sqrt (1 + m * m)) normal_in 20)
     = map (\<lambda>t. (real t / 10, m * real t / 10)) [0..<10]"
  by (rule generate_straight_steep)

theorem generate_straight_near_vertical_overshoots_witness:
  "(20 :: real) \<le> 1000 \<and>
   last (fst (generate_straight (0, 0)
                (1 / sqrt (1 + 1000 * 1000), 1000 / sqrt (1 + 1000 * 1000)) (0, 1) 20))
     = (9 / 10, 900)"
proof -
  have h: "(20 :: real) \<le> 1000" by simp
  have "last (map (\<lambda>t. (real t / 10, 1000 * real t / 10)) [0..<10]) = (9 / 10, 900)"
    by (simp add: last_map)
  with generate_straight_near_vertical_overshoots[OF h, of "(0, 1)"] h
  show ?thesis by simp
qed

text \<open>
  C9. When the goal coincides with the computed circle centre, the solver raises
  \<open>ZeroDivisionError\<close>: the distance \<open>x\<close> is 0 and \<open>r/x\<close> is evaluated in the test
  that guards the clamp, before any clamping. This holds for every start point, tangent,
  radius and turn direction, with a unit normal, on the first call and on the retry.
\<close>

theorem facing_point_goal_at_centre_raises:
  assumes "fst normal_in * fst normal_in + snd normal_in * snd normal_in = 1"
  shows "generate_constant_turn_until_facing_point start_point
           (fst start_point
              + radius * (if turn_against_normal then - fst normal_in else fst normal_in),
            snd start_point
              + radius * (if turn_against_normal then - snd normal_in else snd normal_in))
           tangent_in normal_in turn_against_normal radius recursed
         = Inl ZeroDivisionError"
  by (subst generate_constant_turn_until_facing_point.simps)
     (simp add: facing_point_theta_goal_at_centre[OF assms])

theorem facing_point_goal_at_centre_raises_witness:
  "fst ((0, 1) :: point) * fst ((0, 1) :: point)
     + snd ((0, 1) :: point) * snd ((0, 1) :: point) = 1 \<and>
   generate_constant_turn_until_facing_point (0, 0) (0, 10) (1, 0) (0, 1) False 10 False
     = Inl ZeroDivisionError"
proof -
  have h: "fst ((0, 1) :: point) * fst ((0, 1) :: point)
           + snd ((0, 1) :: point) * snd ((0, 1) :: point) = 1"
    by simp
  from facing_point_goal_at_centre_raises[OF h, of "(0, 0)" 10 False "(1, 0)" False] h
  show ?thesis by simp
qed

text \<open>
  C10. A list of at most ten points is never reported as overlapping: dropping the final
  ten points leaves the empty list, whatever the geometry of the path.
\<close>

theorem check_if_overlap_short:
  "length points \<le> 10 \<Longrightarrow> check_if_overlap points = False"
  by (simp add: check_if_overlap_def)

theorem check_if_overlap_short_witness:
  "length [(0,0),(1,1),(0,0),(1,1),(0,0)::ipoint] \<le> 10 \<and>
   check_if_overlap [(0,0),(1,1),(0,0),(1,1),(0,0)] = False"
  using check_if_overlap_short[of "[(0,0),(1,1),(0,0),(1,1),(0,0)]"] by simp

end
